theory Spec2Isabelle
  imports Main
begin

section \<open>The document\<close>

text \<open>
  Both classes hold a reference to a DOM node and work on it through the browser's
  API. The document is an explicit store: nodes are references, and every property
  the two classes read or write is a field of the store indexed by the reference.
  Nodes are elements whose parents, when they have one, are elements too.
\<close>

type_synonym node_ref = nat

record vector =
  x :: int
  y :: int

text \<open>A \<open>DOMRect\<close>: the box origin \<open>x\<close>, \<open>y\<close> and its size.\<close>

record dom_rect = vector +
  width :: int
  height :: int

text \<open>
  \<open>parentNode\<close> and \<open>childNodes\<close> are the tree and \<open>classList\<close> the class tokens.
  \<open>style_translate\<close> is the declared value of the inline \<open>translate\<close> property as the
  host keeps it; its type \<open>'v\<close> is the host's. The last three fields are what the
  layout of the page gives a node: whether the node has a box at all (a node under
  \<open>display: none\<close>, or outside the page, has none), the box it has on the screen with no
  translation, and the linear map that the transforms of its ancestors apply to a
  displacement of the node (the identity when no ancestor is transformed, a doubling
  under an ancestor with \<open>scale(2)\<close>).
\<close>

record 'v document =
  parentNode :: "node_ref \<Rightarrow> node_ref option"
  childNodes :: "node_ref \<Rightarrow> node_ref list"
  style_translate :: "node_ref \<Rightarrow> 'v"
  classList :: "node_ref \<Rightarrow> string list"
  rendered :: "node_ref \<Rightarrow> bool"
  layoutBox :: "node_ref \<Rightarrow> dom_rect"
  ancestorTransform :: "node_ref \<Rightarrow> vector \<Rightarrow> vector"

datatype dom_exception = HierarchyRequestError | SyntaxError | InvalidCharacterError

text \<open>
  \<open>inclusive_descendant pm a b\<close>: node \<open>b\<close> is \<open>a\<close> itself or is reached from \<open>a\<close>
  by following child links, that is, \<open>a\<close> is reached from \<open>b\<close> by following the
  parent map \<open>pm\<close>. This is what \<open>a.contains(b)\<close> answers.
\<close>

inductive inclusive_descendant :: "(node_ref \<Rightarrow> node_ref option) \<Rightarrow> node_ref \<Rightarrow> node_ref \<Rightarrow> bool"
  for pm :: "node_ref \<Rightarrow> node_ref option" and a :: node_ref
where
  self: "inclusive_descendant pm a a"
| child: "pm b = Some p \<Longrightarrow> inclusive_descendant pm a p \<Longrightarrow> inclusive_descendant pm a b"

code_pred inclusive_descendant .

definition lastChild :: "'v document \<Rightarrow> node_ref \<Rightarrow> node_ref option" where
  "lastChild doc p = (if childNodes doc p = [] then None else Some (last (childNodes doc p)))"

text \<open>
  Removing a node from its parent: the node leaves the parent's child list and its
  parent link is cleared.
\<close>

definition remove_node :: "node_ref \<Rightarrow> 'v document \<Rightarrow> 'v document" where
  "remove_node n doc =
     (case parentNode doc n of
        None \<Rightarrow> doc
      | Some q \<Rightarrow> doc\<lparr>parentNode := (parentNode doc)(n := None),
                      childNodes := (childNodes doc)(q := removeAll n (childNodes doc q))\<rparr>)"

text \<open>
  \<open>parent.appendChild(node)\<close> of the DOM standard, for element nodes: a node that is
  an inclusive ancestor of \<open>parent\<close> is refused with a \<open>HierarchyRequestError\<close>;
  otherwise the node is removed from where it is and becomes the last child of
  \<open>parent\<close>.
\<close>

definition appendChild :: "node_ref \<Rightarrow> node_ref \<Rightarrow> 'v document \<Rightarrow> dom_exception + 'v document" where
  "appendChild p n doc =
     (if inclusive_descendant (parentNode doc) n p then Inl HierarchyRequestError
      else let doc1 = remove_node n doc
           in Inr (doc1\<lparr>parentNode := (parentNode doc1)(n := Some p),
                        childNodes := (childNodes doc1)(p := childNodes doc1 p @ [n])\<rparr>))"

section \<open>FormFronter\<close>

record FormFronter =
  targetForm :: node_ref

text \<open>\<open>FormFronter.bringToFront\<close> (FormFronter.ts, lines 10 to 21).\<close>

definition bringToFront :: "FormFronter \<Rightarrow> 'v document \<Rightarrow> dom_exception + 'v document" where
  "bringToFront this doc =
     (case parentNode doc (FormFronter.targetForm this) of
        None \<Rightarrow> Inr doc
      | Some parent \<Rightarrow>
          if lastChild doc parent = Some (FormFronter.targetForm this) then Inr doc
          else appendChild parent (FormFronter.targetForm this) doc)"

text \<open>
  A document is a tree when its parent map is well founded; a depth function gives
  the evidence: every parent is strictly less deep than its child.
\<close>

definition tree_shaped :: "(node_ref \<Rightarrow> nat) \<Rightarrow> 'v document \<Rightarrow> bool" where
  "tree_shaped depth doc = (\<forall>n p. parentNode doc n = Some p \<longrightarrow> depth p < depth n)"

section \<open>The host\<close>

text \<open>
  What the JavaScript engine and the browser do is not in the sources. It is a
  parameter \<open>h\<close> of every operation that needs it, and the properties below that
  depend on it say what they ask of it.
  \<^item> \<open>Number_toString\<close>: the string a template literal prints for a number. Pixel
    quantities are whole numbers (\<open>int\<close>): box coordinates, mouse movements and
    translations.
  \<^item> \<open>css_parse\<close>: the value the host declares when a string is assigned to
    \<open>style.translate\<close>, or \<open>None\<close> when it refuses the string and ignores the assignment.
  \<^item> \<open>css_serialize\<close>: the string the host gives when \<open>style.translate\<close> is read.
  \<^item> \<open>used_translation\<close>: the displacement in pixels that a declared value gives a
    node with the given box.
\<close>

record 'v host =
  Number_toString :: "int \<Rightarrow> string"
  css_parse :: "string \<Rightarrow> 'v option"
  css_serialize :: "'v \<Rightarrow> string"
  used_translation :: "dom_rect \<Rightarrow> 'v \<Rightarrow> vector"

text \<open>Assigning to \<open>style.translate\<close> and reading it.\<close>

definition set_style_translate :: "'v host \<Rightarrow> node_ref \<Rightarrow> string \<Rightarrow> 'v document \<Rightarrow> 'v document" where
  "set_style_translate h n s doc =
     (case css_parse h s of
        None \<Rightarrow> doc
      | Some v \<Rightarrow> doc\<lparr>style_translate := (style_translate doc)(n := v)\<rparr>)"

definition get_style_translate :: "'v host \<Rightarrow> 'v document \<Rightarrow> node_ref \<Rightarrow> string" where
  "get_style_translate h doc n = css_serialize h (style_translate doc n)"

text \<open>
  \<open>getBoundingClientRect\<close>: a node without a box gives the rectangle of zeros; a node
  with a box gives that box, moved by the displacement of its \<open>translate\<close> value as
  the transforms of its ancestors map it.
\<close>

definition getBoundingClientRect :: "'v host \<Rightarrow> 'v document \<Rightarrow> node_ref \<Rightarrow> dom_rect" where
  "getBoundingClientRect h doc n =
     (if \<not> rendered doc n then \<lparr>x = 0, y = 0, width = 0, height = 0\<rparr>
      else let box = layoutBox doc n;
               moved = ancestorTransform doc n (used_translation h box (style_translate doc n))
           in box\<lparr>x := x box + x moved, y := y box + y moved\<rparr>)"

text \<open>
  \<open>classList.add\<close> and \<open>classList.remove\<close> of the DOM standard: the empty token is a
  \<open>SyntaxError\<close>, a token with ASCII whitespace an \<open>InvalidCharacterError\<close>.
\<close>

definition ascii_whitespace :: "char \<Rightarrow> bool" where
  "ascii_whitespace c = ((of_char c :: nat) \<in> {9, 10, 12, 13, 32})"

definition classList_add :: "node_ref \<Rightarrow> string \<Rightarrow> 'v document \<Rightarrow> dom_exception + 'v document" where
  "classList_add n token doc =
     (if token = [] then Inl SyntaxError
      else if list_ex ascii_whitespace token then Inl InvalidCharacterError
      else if token \<in> set (classList doc n) then Inr doc
      else Inr (doc\<lparr>classList := (classList doc)(n := classList doc n @ [token])\<rparr>))"

definition classList_remove :: "node_ref \<Rightarrow> string \<Rightarrow> 'v document \<Rightarrow> dom_exception + 'v document" where
  "classList_remove n token doc =
     (if token = [] then Inl SyntaxError
      else if list_ex ascii_whitespace token then Inl InvalidCharacterError
      else Inr (doc\<lparr>classList := (classList doc)(n := removeAll token (classList doc n))\<rparr>))"

section \<open>Mouse events\<close>

text \<open>
  The target of an event is \<open>null\<close> (\<open>None\<close>), a node, or an event target that is not
  a node, such as the window.
\<close>

datatype event_target = NodeTarget node_ref | WindowTarget

record MouseEvent =
  target :: "event_target option"
  movementX :: int
  movementY :: int

definition instanceof_Node :: "event_target option \<Rightarrow> bool" where
  "instanceof_Node t = (case t of Some (NodeTarget _) \<Rightarrow> True | _ \<Rightarrow> False)"

text \<open>\<open>node.contains(other)\<close>: false for \<open>null\<close>, otherwise the inclusive-descendant test.\<close>

definition contains :: "'v document \<Rightarrow> node_ref \<Rightarrow> event_target option \<Rightarrow> bool" where
  "contains doc n other =
     (case other of
        Some (NodeTarget m) \<Rightarrow> inclusive_descendant (parentNode doc) n m
      | _ \<Rightarrow> False)"

section \<open>DragTranslater\<close>

text \<open>
  DragTranslater.ts holds two versions of the class. \<open>DragTranslater_v1\<close> is the first
  (lines 27 to 109), \<open>DragTranslater\<close> the second (lines 141 to 247), which adds the
  field \<open>interactionDepth\<close> and the hover listeners.
\<close>

datatype interaction_depth = Shallow | Deep

record DragTranslater_v1 =
  targetForm :: node_ref
  lastMouseDown :: "MouseEvent option"
  mouseIsDown :: bool

record DragTranslater = DragTranslater_v1 +
  interactionDepth :: interaction_depth

text \<open>The field initialisers and the constructor's assignment of \<open>targetForm\<close>.\<close>

definition new_DragTranslater_v1 :: "node_ref \<Rightarrow> DragTranslater_v1" where
  "new_DragTranslater_v1 form = \<lparr>targetForm = form, lastMouseDown = None, mouseIsDown = False\<rparr>"

definition new_DragTranslater :: "node_ref \<Rightarrow> DragTranslater" where
  "new_DragTranslater form =
     \<lparr>targetForm = form, lastMouseDown = None, mouseIsDown = False, interactionDepth = Shallow\<rparr>"

text \<open>
  A method works on the object and the document, and returns both as it leaves them.
  The accessors and the press and release handlers have the same text in the two
  versions of the class, so they are defined once for both.

  The getter of \<open>currentTranslation\<close> (lines 51 to 73 and 183 to 205).
\<close>

fun get_currentTranslation ::
  "'v host \<Rightarrow> 'a DragTranslater_v1_scheme \<times> 'v document \<Rightarrow>
     vector \<times> ('a DragTranslater_v1_scheme \<times> 'v document)" where
  "get_currentTranslation h (this, doc) =
     (let translatedClientRect = getBoundingClientRect h doc (targetForm this);
          translatedX = x translatedClientRect;
          translatedY = y translatedClientRect;
          translate = get_style_translate h doc (targetForm this);
          doc1 = set_style_translate h (targetForm this) ''0px 0px'' doc;
          untranslatedClientRect = getBoundingClientRect h doc1 (targetForm this);
          untranslatedX = x untranslatedClientRect;
          untranslatedY = y untranslatedClientRect;
          doc2 = set_style_translate h (targetForm this) translate doc1
      in (\<lparr>x = translatedX - untranslatedX, y = translatedY - untranslatedY\<rparr>, (this, doc2)))"

text \<open>The template literal of the setter.\<close>

definition written :: "'v host \<Rightarrow> vector \<Rightarrow> string" where
  "written h v = Number_toString h (x v) @ ''px '' @ Number_toString h (y v) @ ''px''"

text \<open>The setter (lines 75 to 77 and 207 to 209).\<close>

fun set_currentTranslation ::
  "'v host \<Rightarrow> vector \<Rightarrow> 'a DragTranslater_v1_scheme \<times> 'v document \<Rightarrow>
     'a DragTranslater_v1_scheme \<times> 'v document" where
  "set_currentTranslation h currentTranslation (this, doc) =
     (this, set_style_translate h (targetForm this) (written h currentTranslation) doc)"

text \<open>\<open>untranslate\<close> (lines 82 to 84 and 214 to 216).\<close>

fun untranslate ::
  "'v host \<Rightarrow> 'a DragTranslater_v1_scheme \<times> 'v document \<Rightarrow> 'a DragTranslater_v1_scheme \<times> 'v document" where
  "untranslate h (this, doc) = (this, set_style_translate h (targetForm this) ''0px 0px'' doc)"

text \<open>\<open>handleMouseDown\<close> (lines 86 to 90 and 218 to 222).\<close>

fun handleMouseDown ::
  "MouseEvent \<Rightarrow> 'a DragTranslater_v1_scheme \<times> 'v document \<Rightarrow> 'a DragTranslater_v1_scheme \<times> 'v document" where
  "handleMouseDown event (this, doc) = (this\<lparr>lastMouseDown := Some event, mouseIsDown := True\<rparr>, doc)"

text \<open>\<open>handleMouseUp\<close> (lines 106 to 108 and 244 to 246).\<close>

fun handleMouseUp ::
  "MouseEvent \<Rightarrow> 'a DragTranslater_v1_scheme \<times> 'v document \<Rightarrow> 'a DragTranslater_v1_scheme \<times> 'v document" where
  "handleMouseUp event (this, doc) = (this\<lparr>mouseIsDown := False\<rparr>, doc)"

text \<open>
  The last two statements of \<open>handleMouseMove\<close> in both versions (lines 98 to 103 and
  236 to 241): read the translation, add the movement of the event, write it back.
\<close>

definition add_movement ::
  "'v host \<Rightarrow> MouseEvent \<Rightarrow> 'a DragTranslater_v1_scheme \<times> 'v document \<Rightarrow>
     'a DragTranslater_v1_scheme \<times> 'v document" where
  "add_movement h event s =
     (let (currentTranslation, s1) = get_currentTranslation h s
      in set_currentTranslation h
           \<lparr>x = x currentTranslation + movementX event,
            y = y currentTranslation + movementY event\<rparr> s1)"

text \<open>\<open>handleMouseMove\<close> of the first version (lines 92 to 104).\<close>

fun handleMouseMove_v1 ::
  "'v host \<Rightarrow> MouseEvent \<Rightarrow> DragTranslater_v1 \<times> 'v document \<Rightarrow> DragTranslater_v1 \<times> 'v document" where
  "handleMouseMove_v1 h event (this, doc) =
     (if \<not> mouseIsDown this then (this, doc)
      else case lastMouseDown this of
        None \<Rightarrow> (this, doc)
      | Some down \<Rightarrow>
          if target down \<noteq> Some (NodeTarget (targetForm this)) then (this, doc)
          else add_movement h event (this, doc))"

text \<open>\<open>handleMouseMove\<close> of the second version (lines 224 to 242).\<close>

fun handleMouseMove ::
  "'v host \<Rightarrow> MouseEvent \<Rightarrow> DragTranslater \<times> 'v document \<Rightarrow> DragTranslater \<times> 'v document" where
  "handleMouseMove h event (this, doc) =
     (if \<not> mouseIsDown this then (this, doc)
      else case lastMouseDown this of
        None \<Rightarrow> (this, doc)
      | Some down \<Rightarrow>
          if \<not> instanceof_Node (target down) then (this, doc)
          else if (if interactionDepth this = Shallow
                   then target down \<noteq> Some (NodeTarget (targetForm this))
                   else \<not> contains doc (targetForm this) (target down))
          then (this, doc)
          else add_movement h event (this, doc))"

text \<open>
  The hover listeners of the second version (lines 170 to 176). The class name
  \<open>styles['grab-cursor']\<close> comes from a style sheet that is not part of the sources;
  it is the parameter \<open>grab_cursor\<close>.
\<close>

fun handleMouseOver ::
  "string \<Rightarrow> MouseEvent \<Rightarrow> DragTranslater \<times> 'v document \<Rightarrow> dom_exception + DragTranslater \<times> 'v document" where
  "handleMouseOver grab_cursor event (this, doc) =
     (if target event = Some (NodeTarget (targetForm this))
      then (case classList_add (targetForm this) grab_cursor doc of
              Inl e \<Rightarrow> Inl e
            | Inr doc1 \<Rightarrow> Inr (this, doc1))
      else Inr (this, doc))"

fun handleMouseOut ::
  "string \<Rightarrow> MouseEvent \<Rightarrow> DragTranslater \<times> 'v document \<Rightarrow> dom_exception + DragTranslater \<times> 'v document" where
  "handleMouseOut grab_cursor event (this, doc) =
     (if target event = Some (NodeTarget (targetForm this))
      then (case classList_remove (targetForm this) grab_cursor doc of
              Inl e \<Rightarrow> Inl e
            | Inr doc1 \<Rightarrow> Inr (this, doc1))
      else Inr (this, doc))"

text \<open>
  The three listeners the constructor registers on the window (lines 164 to 168), as
  one step on the object and the document, and a sequence of events as a fold of
  steps: the host runs each handler to completion before the next event.
\<close>

datatype window_event = MouseDown MouseEvent | MouseMove MouseEvent | MouseUp MouseEvent

fun dispatchEvent ::
  "'v host \<Rightarrow> window_event \<Rightarrow> DragTranslater \<times> 'v document \<Rightarrow> DragTranslater \<times> 'v document" where
  "dispatchEvent h (MouseDown event) s = handleMouseDown event s"
| "dispatchEvent h (MouseMove event) s = handleMouseMove h event s"
| "dispatchEvent h (MouseUp event) s = handleMouseUp event s"

definition dispatchEvents ::
  "'v host \<Rightarrow> window_event list \<Rightarrow> DragTranslater \<times> 'v document \<Rightarrow> DragTranslater \<times> 'v document" where
  "dispatchEvents h events s = fold (dispatchEvent h) events s"

text \<open>The vector a read of \<open>currentTranslation\<close> returns.\<close>

definition currentTranslation :: "'v host \<Rightarrow> 'a DragTranslater_v1_scheme \<times> 'v document \<Rightarrow> vector" where
  "currentTranslation h s = fst (get_currentTranslation h s)"

section \<open>What the properties ask of the host and of the layout\<close>

text \<open>
  \<open>plainly_rendered\<close>: the node has a box and no transform of an ancestor changes its
  displacements.
\<close>

definition plainly_rendered :: "'v document \<Rightarrow> node_ref \<Rightarrow> bool" where
  "plainly_rendered doc n = (rendered doc n \<and> ancestorTransform doc n = (\<lambda>v. v))"

text \<open>\<open>reads_zero\<close>: the host accepts \<open>0px 0px\<close> and displaces nothing for it.\<close>

definition reads_zero :: "'v host \<Rightarrow> dom_rect \<Rightarrow> bool" where
  "reads_zero h box =
     (case css_parse h ''0px 0px'' of
        None \<Rightarrow> False
      | Some v \<Rightarrow> used_translation h box v = \<lparr>x = 0, y = 0\<rparr>)"

text \<open>
  \<open>keeps_exactly\<close>: the host accepts the string the setter writes for the vector and
  displaces the node by exactly that vector. Hosts keep lengths in limited precision,
  so this holds of some vectors and not of others.
\<close>

definition keeps_exactly :: "'v host \<Rightarrow> dom_rect \<Rightarrow> vector \<Rightarrow> bool" where
  "keeps_exactly h box v =
     (case css_parse h (written h v) of
        None \<Rightarrow> False
      | Some declared \<Rightarrow> used_translation h box declared = v)"


text \<open>
  \<open>serialization_stable\<close>: the host accepts the string it serializes the value to, and
  serializes what it then declares to the same string.
\<close>

definition serialization_stable :: "'v host \<Rightarrow> 'v \<Rightarrow> bool" where
  "serialization_stable h v =
     (case css_parse h (css_serialize h v) of
        None \<Rightarrow> False
      | Some v' \<Rightarrow> css_serialize h v' = css_serialize h v)"

section \<open>An example host and example documents\<close>

text \<open>
  The host of the examples knows lengths in \<open>px\<close> that are whole numbers, one or two
  of them, and keeps them as they are. It prints a whole number in decimal digits,
  as JavaScript does below \<open>10\<^sup>2\<^sup>1\<close>. It serializes a length with six significant
  digits, in exponent form from \<open>10\<^sup>6\<close> on, and leaves out a second length of zero.
  The declared value is \<open>None\<close> when the property is not set.
\<close>

definition digit_char :: "int \<Rightarrow> char" where
  "digit_char d = char_of (48 + d)"

function decimal_digits :: "int \<Rightarrow> string" where
  "decimal_digits n =
     (if n < 10 then [digit_char n] else decimal_digits (n div 10) @ [digit_char (n mod 10)])"
  by pat_completeness auto
termination
  by (relation "measure nat") auto

declare decimal_digits.simps [simp del]

definition decimal_numeral :: "int \<Rightarrow> string" where
  "decimal_numeral i = (if i < 0 then CHR ''-'' # decimal_digits (- i) else decimal_digits i)"

definition is_digit :: "char \<Rightarrow> bool" where
  "is_digit c = (48 \<le> (of_char c :: int) \<and> (of_char c :: int) \<le> 57)"

definition all_digits :: "string \<Rightarrow> bool" where
  "all_digits s = (s \<noteq> [] \<and> list_all is_digit s)"

definition digits_value :: "string \<Rightarrow> int" where
  "digits_value s = foldl (\<lambda>acc c. 10 * acc + (of_char c - 48)) 0 s"

text \<open>\<open>split_at c s\<close>: the part of \<open>s\<close> before the first \<open>c\<close>, and the part after it if there is one.\<close>

definition split_at :: "char \<Rightarrow> string \<Rightarrow> string \<times> string option" where
  "split_at c s =
     (takeWhile (\<lambda>d. d \<noteq> c) s,
      case dropWhile (\<lambda>d. d \<noteq> c) s of [] \<Rightarrow> None | _ # rest \<Rightarrow> Some rest)"

definition signed :: "string \<Rightarrow> bool \<times> string" where
  "signed s =
     (case s of
        [] \<Rightarrow> (False, s)
      | c # rest \<Rightarrow> if c = CHR ''-'' then (True, rest) else if c = CHR ''+'' then (False, rest) else (False, s))"

text \<open>\<open>times_power_of_ten m k\<close> is \<open>m \<sqdot> 10\<^sup>k\<close> when that is a whole number.\<close>

definition times_power_of_ten :: "int \<Rightarrow> int \<Rightarrow> int option" where
  "times_power_of_ten m k =
     (if 0 \<le> k then Some (m * 10 ^ nat k)
      else if m mod 10 ^ nat (- k) = 0 then Some (m div 10 ^ nat (- k)) else None)"

text \<open>A number of the style sheet syntax: sign, digits, fraction, exponent.\<close>

definition parse_css_number :: "string \<Rightarrow> int option" where
  "parse_css_number s =
     (let (negative, body) = signed s;
          (mantissa, exponent) = split_at (CHR ''e'') body;
          (whole, fraction) = split_at (CHR ''.'') mantissa;
          digits = whole @ (case fraction of None \<Rightarrow> [] | Some f \<Rightarrow> f);
          power = (case exponent of
                     None \<Rightarrow> Some 0
                   | Some e \<Rightarrow>
                       (let (minus, d) = signed e
                        in if all_digits d
                           then Some (if minus then - digits_value d else digits_value d)
                           else None))
      in if all_digits whole \<and> (case fraction of None \<Rightarrow> True | Some f \<Rightarrow> all_digits f)
         then (case power of
                 None \<Rightarrow> None
               | Some p \<Rightarrow>
                   (case times_power_of_ten (digits_value digits)
                           (p - int (case fraction of None \<Rightarrow> 0 | Some f \<Rightarrow> length f)) of
                      None \<Rightarrow> None
                    | Some v \<Rightarrow> Some (if negative then - v else v)))
         else None)"

definition parse_px :: "string \<Rightarrow> int option" where
  "parse_px s =
     (if 2 \<le> length s \<and> drop (length s - 2) s = ''px''
      then parse_css_number (take (length s - 2) s) else None)"

definition example_css_parse :: "string \<Rightarrow> vector option option" where
  "example_css_parse s =
     (if s = [] \<or> s = ''none'' then Some None
      else let (first, second) = split_at (CHR '' '') s
           in case second of
                None \<Rightarrow>
                  (case parse_px first of
                     Some a \<Rightarrow> Some (Some \<lparr>x = a, y = 0\<rparr>)
                   | None \<Rightarrow> None)
              | Some rest \<Rightarrow>
                  (case (parse_px first, parse_px rest) of
                     (Some a, Some b) \<Rightarrow> Some (Some \<lparr>x = a, y = b\<rparr>)
                   | _ \<Rightarrow> None))"

text \<open>Six significant digits: \<open>1234567\<close> is \<open>1.23457e+06\<close>.\<close>

definition six_digits :: "int \<Rightarrow> string" where
  "six_digits n =
     (let a = \<bar>n\<bar>; sign = (if n < 0 then ''-'' else [])
      in if a < 1000000 then sign @ decimal_digits a
         else let k = length (decimal_digits a);
                  m = (a + 5 * 10 ^ (k - 7)) div 10 ^ (k - 6);
                  (m6, e) = (if m = 1000000 then (100000, k) else (m, k - 1));
                  ds = decimal_digits m6;
                  fraction = rev (dropWhile (\<lambda>c. c = CHR ''0'') (rev (drop 1 ds)));
                  ex = decimal_digits (int e)
              in sign @ take 1 ds @ (if fraction = [] then [] else CHR ''.'' # fraction)
                   @ ''e+'' @ (if length ex < 2 then CHR ''0'' # ex else ex))"

definition example_css_serialize :: "vector option \<Rightarrow> string" where
  "example_css_serialize v =
     (case v of
        None \<Rightarrow> []
      | Some t \<Rightarrow> six_digits (x t) @ ''px'' @ (if y t = 0 then [] else '' '' @ six_digits (y t) @ ''px''))"

definition example_host :: "vector option host" where
  "example_host =
     \<lparr>Number_toString = decimal_numeral,
      css_parse = example_css_parse,
      css_serialize = example_css_serialize,
      used_translation = (\<lambda>box v. case v of None \<Rightarrow> \<lparr>x = 0, y = 0\<rparr> | Some t \<Rightarrow> t)\<rparr>"

text \<open>
  A container (node 2) with two forms (nodes 3 and 4); form 3 has a child (node 5), has
  its box at (30, 20) and carries the translation (10, -4).
\<close>

definition example_document :: "vector option document" where
  "example_document =
     \<lparr>parentNode = (\<lambda>_. None)(3 := Some 2, 4 := Some 2, 5 := Some 3),
      childNodes = (\<lambda>_. [])(2 := [3, 4], 3 := [5]),
      style_translate = (\<lambda>_. None)(3 := Some \<lparr>x = 10, y = - 4\<rparr>),
      classList = (\<lambda>_. []),
      rendered = (\<lambda>_. True),
      layoutBox = (\<lambda>_. \<lparr>x = 30, y = 20, width = 200, height = 100\<rparr>),
      ancestorTransform = (\<lambda>_ v. v)\<rparr>"

definition example_depth :: "node_ref \<Rightarrow> nat" where
  "example_depth n = (if n = 2 then 0 else if n = 5 then 2 else 1)"



text \<open>The same document with form 3 carrying the translation (1234567, 0).\<close>

definition far_document :: "vector option document" where
  "far_document =
     example_document\<lparr>style_translate := (\<lambda>_. None)(3 := Some \<lparr>x = 1234567, y = 0\<rparr>)\<rparr>"

definition mouse_event :: "event_target option \<Rightarrow> int \<Rightarrow> int \<Rightarrow> MouseEvent" where
  "mouse_event origin dx dy = \<lparr>target = origin, movementX = dx, movementY = dy\<rparr>"

section \<open>Documents that are trees\<close>

lemma inclusive_descendant_depth:
  assumes "inclusive_descendant pm a b"
    and "\<And>n p. pm n = Some p \<Longrightarrow> depth p < depth n"
  shows "depth a \<le> (depth b :: nat)"
  using assms
proof (induction rule: inclusive_descendant.induct)
  case self
  show ?case by simp
next
  case (child b p)
  from child.hyps(1) child.prems have "depth p < depth b" by blast
  moreover have "depth a \<le> depth p" using child.IH child.prems by blast
  ultimately show ?case by simp
qed

lemma tree_shaped_not_ancestor_of_parent:
  assumes "tree_shaped depth doc" and "parentNode doc n = Some p"
  shows "\<not> inclusive_descendant (parentNode doc) n p"
proof
  assume d: "inclusive_descendant (parentNode doc) n p"
  have "depth n \<le> depth p"
    using inclusive_descendant_depth [OF d] assms(1) by (simp add: tree_shaped_def)
  moreover have "depth p < depth n"
    using assms by (simp add: tree_shaped_def)
  ultimately show False by simp
qed

lemma appendChild_own_parent:
  assumes "tree_shaped depth doc" and "parentNode doc n = Some p"
  shows "appendChild p n doc =
           Inr (doc\<lparr>parentNode := (parentNode doc)(n := Some p),
                    childNodes := (childNodes doc)(p := removeAll n (childNodes doc p) @ [n])\<rparr>)"
  using tree_shaped_not_ancestor_of_parent [OF assms] assms(2)
  by (simp add: appendChild_def remove_node_def Let_def)

section \<open>Assigning and reading the style\<close>

lemma set_style_translate_frame:
  "parentNode (set_style_translate h n s doc) = parentNode doc"
  "childNodes (set_style_translate h n s doc) = childNodes doc"
  "classList (set_style_translate h n s doc) = classList doc"
  "rendered (set_style_translate h n s doc) = rendered doc"
  "layoutBox (set_style_translate h n s doc) = layoutBox doc"
  "ancestorTransform (set_style_translate h n s doc) = ancestorTransform doc"
  by (simp_all add: set_style_translate_def split: option.splits)

lemma set_style_translate_accepted:
  "css_parse h s = Some v \<Longrightarrow> style_translate (set_style_translate h n s doc) n = v"
  by (simp add: set_style_translate_def)

lemma set_style_translate_twice:
  "set_style_translate h n s (set_style_translate h n s doc) = set_style_translate h n s doc"
  by (simp add: set_style_translate_def split: option.splits)

lemma set_style_translate_only_there:
  "set_style_translate h n s doc =
     doc\<lparr>style_translate := (style_translate doc)(n := style_translate (set_style_translate h n s doc) n)\<rparr>"
  by (simp add: set_style_translate_def split: option.splits)

lemma getBoundingClientRect_plain:
  assumes "plainly_rendered doc n"
  shows "x (getBoundingClientRect h doc n) =
           x (layoutBox doc n) + x (used_translation h (layoutBox doc n) (style_translate doc n))"
    and "y (getBoundingClientRect h doc n) =
           y (layoutBox doc n) + y (used_translation h (layoutBox doc n) (style_translate doc n))"
  using assms by (simp_all add: plainly_rendered_def getBoundingClientRect_def Let_def)

lemma plainly_rendered_set_style:
  "plainly_rendered (set_style_translate h n s doc) m = plainly_rendered doc m"
  by (simp add: plainly_rendered_def set_style_translate_frame)

section \<open>Reading and writing the translation\<close>

lemma get_currentTranslation_object:
  "fst (snd (get_currentTranslation h (this, doc))) = this"
  by (simp add: Let_def)

lemma get_currentTranslation_frame:
  "parentNode (snd (snd (get_currentTranslation h (this, doc)))) = parentNode doc"
  "rendered (snd (snd (get_currentTranslation h (this, doc)))) = rendered doc"
  "layoutBox (snd (snd (get_currentTranslation h (this, doc)))) = layoutBox doc"
  "ancestorTransform (snd (snd (get_currentTranslation h (this, doc)))) = ancestorTransform doc"
  by (simp_all add: Let_def set_style_translate_frame)

lemma currentTranslation_plain:
  assumes "plainly_rendered doc (targetForm this)"
    and "reads_zero h (layoutBox doc (targetForm this))"
  shows "currentTranslation h (this, doc) =
           used_translation h (layoutBox doc (targetForm this)) (style_translate doc (targetForm this))"
proof -
  let ?n = "targetForm this"
  let ?doc1 = "set_style_translate h ?n ''0px 0px'' doc"
  from assms(2) obtain z where z: "css_parse h ''0px 0px'' = Some z"
    and z0: "used_translation h (layoutBox doc ?n) z = \<lparr>x = 0, y = 0\<rparr>"
    by (auto simp: reads_zero_def split: option.splits)
  have p1: "plainly_rendered ?doc1 ?n"
    using assms(1) by (simp add: plainly_rendered_set_style)
  have s1: "style_translate ?doc1 ?n = z"
    by (rule set_style_translate_accepted [OF z])
  have ux: "x (getBoundingClientRect h ?doc1 ?n) = x (layoutBox doc ?n)"
    and uy: "y (getBoundingClientRect h ?doc1 ?n) = y (layoutBox doc ?n)"
    using getBoundingClientRect_plain [OF p1, of h] s1 z0
    by (simp_all add: set_style_translate_frame)
  show ?thesis
    using getBoundingClientRect_plain [OF assms(1), of h] ux uy
    by (simp add: currentTranslation_def Let_def)
qed

lemma currentTranslation_after_write:
  assumes "plainly_rendered doc (targetForm this)"
    and "reads_zero h (layoutBox doc (targetForm this))"
    and "keeps_exactly h (layoutBox doc (targetForm this)) v"
  shows "currentTranslation h (set_currentTranslation h v (this, doc)) = v"
proof -
  let ?n = "targetForm this"
  let ?doc' = "set_style_translate h ?n (written h v) doc"
  from assms(3) obtain d where d: "css_parse h (written h v) = Some d"
    and dv: "used_translation h (layoutBox doc ?n) d = v"
    by (auto simp: keeps_exactly_def split: option.splits)
  have p: "plainly_rendered ?doc' ?n"
    using assms(1) by (simp add: plainly_rendered_set_style)
  have r: "reads_zero h (layoutBox ?doc' ?n)"
    using assms(2) by (simp add: set_style_translate_frame)
  have "currentTranslation h (this, ?doc') =
          used_translation h (layoutBox ?doc' ?n) (style_translate ?doc' ?n)"
    by (rule currentTranslation_plain [OF p r])
  also have "\<dots> = v"
    using dv set_style_translate_accepted [OF d, of ?n doc] by (simp add: set_style_translate_frame)
  finally show ?thesis by simp
qed

lemma add_movement_object: "fst (add_movement h event (this, doc)) = this"
  by (simp add: add_movement_def Let_def)


lemma add_movement_eq:
  "add_movement h event (this, doc) =
     set_currentTranslation h
       \<lparr>x = x (currentTranslation h (this, doc)) + movementX event,
        y = y (currentTranslation h (this, doc)) + movementY event\<rparr>
       (snd (get_currentTranslation h (this, doc)))"
  by (simp add: add_movement_def currentTranslation_def split_def Let_def)

lemma currentTranslation_after_movement:
  assumes "plainly_rendered doc (targetForm this)"
    and "reads_zero h (layoutBox doc (targetForm this))"
    and "keeps_exactly h (layoutBox doc (targetForm this))
           \<lparr>x = x (currentTranslation h (this, doc)) + movementX event,
            y = y (currentTranslation h (this, doc)) + movementY event\<rparr>"
  shows "currentTranslation h (add_movement h event (this, doc)) =
           \<lparr>x = x (currentTranslation h (this, doc)) + movementX event,
            y = y (currentTranslation h (this, doc)) + movementY event\<rparr>"
proof -
  obtain doc2 where g: "snd (get_currentTranslation h (this, doc)) = (this, doc2)"
    using get_currentTranslation_object [of h this doc]
    by (cases "snd (get_currentTranslation h (this, doc))") simp
  have f: "rendered doc2 = rendered doc" "layoutBox doc2 = layoutBox doc"
    "ancestorTransform doc2 = ancestorTransform doc"
    using get_currentTranslation_frame [of h this doc] g by simp_all
  have p: "plainly_rendered doc2 (targetForm this)"
    using assms(1) f by (simp add: plainly_rendered_def)
  show ?thesis
    unfolding add_movement_eq g
    by (rule currentTranslation_after_write [OF p]) (use assms f in simp_all)
qed

section \<open>The example host and documents, evaluated\<close>

lemma example_plainly_rendered: "plainly_rendered example_document 3"
  by (simp add: plainly_rendered_def example_document_def)

lemma example_reads_zero: "reads_zero example_host (layoutBox example_document 3)"
  by code_simp

lemma example_currentTranslation:
  "targetForm this = 3 \<Longrightarrow> currentTranslation example_host (this, example_document) = \<lparr>x = 10, y = - 4\<rparr>"
  using currentTranslation_plain [of example_document this example_host]
    example_plainly_rendered example_reads_zero
  by (simp add: example_document_def example_host_def)

lemma example_child_in_form: "inclusive_descendant (parentNode example_document) 3 5"
proof -
  have "parentNode example_document 5 = Some 3" by (simp add: example_document_def)
  then show ?thesis
    using inclusive_descendant.self [of "parentNode example_document" 3]
    by (rule inclusive_descendant.child)
qed


section \<open>Properties of the accessors\<close>




text \<open>
  C9: for a host that accepts the string it serializes the declared value
  to and serializes what it then declares to the same string, a read of
  \<open>currentTranslation\<close> leaves \<open>style.translate\<close> of the target form reading the same
  string as before. The read leaves the object as it was, and the document too
  except for the declared \<open>translate\<close> value of the target form.
\<close>

theorem read_restores_translate:
  assumes "serialization_stable h (style_translate doc (targetForm this))"
  shows "get_style_translate h (snd (snd (get_currentTranslation h (this, doc)))) (targetForm this)
           = get_style_translate h doc (targetForm this)
       \<and> fst (snd (get_currentTranslation h (this, doc))) = this
       \<and> snd (snd (get_currentTranslation h (this, doc))) =
           doc\<lparr>style_translate := (style_translate doc)
                 (targetForm this :=
                    style_translate (snd (snd (get_currentTranslation h (this, doc)))) (targetForm this))\<rparr>"
proof -
  let ?n = "targetForm this"
  let ?s = "css_serialize h (style_translate doc ?n)"
  let ?doc1 = "set_style_translate h ?n ''0px 0px'' doc"
  let ?doc2 = "set_style_translate h ?n ?s ?doc1"
  from assms obtain v' where v': "css_parse h ?s = Some v'"
    and same: "css_serialize h v' = ?s"
    by (auto simp: serialization_stable_def split: option.splits)
  have g: "snd (snd (get_currentTranslation h (this, doc))) = ?doc2"
    by (simp add: Let_def get_style_translate_def)
  have st: "style_translate ?doc2 ?n = v'"
    by (rule set_style_translate_accepted [OF v'])
  have fr: "?doc2 = doc\<lparr>style_translate := (style_translate doc)(?n := style_translate ?doc2 ?n)\<rparr>"
    by (simp add: set_style_translate_def split: option.splits)
  show ?thesis
    unfolding g using st same fr get_currentTranslation_object [of h this doc]
    by (simp add: get_style_translate_def)
qed

theorem read_restores_translate_witness:
  "serialization_stable example_host (style_translate example_document (targetForm (new_DragTranslater 3)))
   \<and> get_style_translate example_host example_document (targetForm (new_DragTranslater 3)) = ''10px -4px''
   \<and> get_style_translate example_host
        (snd (snd (get_currentTranslation example_host (new_DragTranslater 3, example_document))))
        (targetForm (new_DragTranslater 3)) = ''10px -4px''"
proof -
  have s: "serialization_stable example_host
             (style_translate example_document (targetForm (new_DragTranslater 3)))"
    by code_simp
  have b: "get_style_translate example_host example_document (targetForm (new_DragTranslater 3))
             = ''10px -4px''"
    by code_simp
  show ?thesis using s b read_restores_translate [OF s] by simp
qed

text \<open>
  A form far away: on a form carrying the translation (1234567, 0) the read leaves
  \<open>style.translate\<close> reading \<open>1.23457e+06px\<close> as before, but the form now carries
  (1234570, 0): the document is not the one before the read.
\<close>

theorem read_moves_far_form:
  "style_translate far_document 3 = Some \<lparr>x = 1234567, y = 0\<rparr>
   \<and> get_style_translate example_host far_document 3 = ''1.23457e+06px''
   \<and> get_style_translate example_host
        (snd (snd (get_currentTranslation example_host (new_DragTranslater 3, far_document)))) 3
       = ''1.23457e+06px''
   \<and> style_translate
        (snd (snd (get_currentTranslation example_host (new_DragTranslater 3, far_document)))) 3
       = Some \<lparr>x = 1234570, y = 0\<rparr>
   \<and> snd (get_currentTranslation example_host (new_DragTranslater 3, far_document))
       \<noteq> (new_DragTranslater 3, far_document)"
proof -
  have a: "style_translate far_document 3 = Some \<lparr>x = 1234567, y = 0\<rparr>"
    by (simp add: far_document_def)
  have b: "get_style_translate example_host far_document 3 = ''1.23457e+06px''"
    by code_simp
  have c: "get_style_translate example_host
        (snd (snd (get_currentTranslation example_host (new_DragTranslater 3, far_document)))) 3
       = ''1.23457e+06px''"
    by code_simp
  have d: "style_translate
        (snd (snd (get_currentTranslation example_host (new_DragTranslater 3, far_document)))) 3
       = Some \<lparr>x = 1234570, y = 0\<rparr>"
    by code_simp
  have e: "snd (get_currentTranslation example_host (new_DragTranslater 3, far_document))
       \<noteq> (new_DragTranslater 3, far_document)"
  proof
    assume "snd (get_currentTranslation example_host (new_DragTranslater 3, far_document))
       = (new_DragTranslater 3, far_document)"
    then have "style_translate
        (snd (snd (get_currentTranslation example_host (new_DragTranslater 3, far_document)))) 3
       = style_translate far_document 3"
      by simp
    with a d show False by simp
  qed
  show ?thesis using a b c d e by blast
qed

text \<open>
  C6: after \<open>untranslate\<close> a read of \<open>currentTranslation\<close> gives the zero vector,
  whatever was accumulated before, and \<open>untranslate\<close> leaves \<open>mouseIsDown\<close> and
  \<open>lastMouseDown\<close>, and the whole object, as they were.
\<close>

theorem untranslate_reads_zero:
  "currentTranslation h (untranslate h (this, doc)) = \<lparr>x = 0, y = 0\<rparr>
   \<and> mouseIsDown (fst (untranslate h (this, doc))) = mouseIsDown this
   \<and> lastMouseDown (fst (untranslate h (this, doc))) = lastMouseDown this
   \<and> fst (untranslate h (this, doc)) = this"
  by (simp add: currentTranslation_def Let_def set_style_translate_twice)

section \<open>Properties of the move handler\<close>


lemma contains_instanceof_Node: "contains doc n other \<Longrightarrow> instanceof_Node other"
  by (auto simp: contains_def instanceof_Node_def split: option.splits event_target.splits)

lemma handleMouseMove_qualifying:
  assumes "mouseIsDown this" and "lastMouseDown this = Some down"
    and "if interactionDepth this = Shallow
         then target down = Some (NodeTarget (targetForm this))
         else contains doc (targetForm this) (target down)"
  shows "handleMouseMove h event (this, doc) = add_movement h event (this, doc)"
proof (cases "interactionDepth this = Shallow")
  case True
  with assms show ?thesis by (simp add: instanceof_Node_def)
next
  case False
  with assms have c: "contains doc (targetForm this) (target down)" by simp
  from contains_instanceof_Node [OF c] c False assms(1,2) show ?thesis by simp
qed


lemma movements_object: "fst (fold (add_movement h) moves (this, doc)) = this"
proof (induction moves arbitrary: doc)
  case Nil
  show ?case by simp
next
  case (Cons m moves)
  obtain doc1 where s1: "add_movement h m (this, doc) = (this, doc1)"
    using add_movement_object [of h m this doc] by (cases "add_movement h m (this, doc)") simp
  show ?case using Cons.IH [of doc1] s1 by simp
qed



lemma currentTranslation_same_form:
  "targetForm this' = targetForm this \<Longrightarrow>
     currentTranslation h (this', doc) = currentTranslation h (this, doc)"
  by (simp add: currentTranslation_def Let_def)




lemma handleMouseMove_shallow_other_origin:
  assumes "interactionDepth this = Shallow"
    and "lastMouseDown this = Some down"
    and "target down \<noteq> Some (NodeTarget (targetForm this))"
  shows "handleMouseMove h event (this, doc) = (this, doc)"
  using assms by simp





text \<open>
  C7: a move while \<open>mouseIsDown\<close> is false changes neither the object nor the document:
  in any such state, on a new object that has seen no press, and right after a
  release, also at the end of any sequence of events. The \<open>translate\<close> style of the
  target form stays as it was.
\<close>

theorem idle_move_is_ignored:
  "(\<not> mouseIsDown this \<longrightarrow> handleMouseMove h event (this, doc) = (this, doc))
   \<and> handleMouseMove h event (new_DragTranslater form, doc) = (new_DragTranslater form, doc)
   \<and> handleMouseMove h event (handleMouseUp up (this, doc)) = handleMouseUp up (this, doc)
   \<and> style_translate (snd (handleMouseMove h event (handleMouseUp up (this, doc)))) (targetForm this)
        = style_translate doc (targetForm this)
   \<and> dispatchEvents h (events @ [MouseUp up, MouseMove event]) s = dispatchEvents h (events @ [MouseUp up]) s"
proof -
  have "dispatchEvents h (events @ [MouseUp up, MouseMove event]) s = dispatchEvents h (events @ [MouseUp up]) s"
    by (cases "fold (dispatchEvent h) events s") (simp add: dispatchEvents_def)
  then show ?thesis by (simp add: new_DragTranslater_def)
qed

theorem idle_move_is_ignored_witness:
  "\<not> mouseIsDown (new_DragTranslater 3)
   \<and> handleMouseMove example_host (mouse_event (Some (NodeTarget 3)) 7 7) (new_DragTranslater 3, example_document)
       = (new_DragTranslater 3, example_document)"
proof -
  have idle: "\<not> mouseIsDown (new_DragTranslater 3)" by (simp add: new_DragTranslater_def)
  show ?thesis
    using idle idle_move_is_ignored
      [of "new_DragTranslater 3" example_host "mouse_event (Some (NodeTarget 3)) 7 7" example_document]
    by blast
qed

text \<open>
  C8: \<open>handleMouseDown\<close> records every event and sets \<open>mouseIsDown\<close>, whatever the target
  of the event, and leaves the document alone. The origin is tested by the move
  handler: for a press on a descendant of the target form, a move is ignored while
  \<open>interactionDepth\<close> is shallow, and is the read, add and write step once
  \<open>interactionDepth\<close> has been set to deep during the same press. That step adds the
  movement to the translation read when the form has a box, no ancestor is
  transformed, and the host reads \<open>0px 0px\<close> as no displacement and keeps the new
  vector exactly.
\<close>

theorem press_recorded_unconditionally:
  "lastMouseDown (fst (handleMouseDown down (this, doc))) = Some down
   \<and> mouseIsDown (fst (handleMouseDown down (this, doc)))
   \<and> snd (handleMouseDown down (this, doc)) = doc
   \<and> (target down = Some (NodeTarget origin) \<and> origin \<noteq> targetForm this
        \<and> inclusive_descendant (parentNode doc) (targetForm this) origin \<longrightarrow>
       handleMouseMove h event ((fst (handleMouseDown down (this, doc)))\<lparr>interactionDepth := Shallow\<rparr>, doc)
         = ((fst (handleMouseDown down (this, doc)))\<lparr>interactionDepth := Shallow\<rparr>, doc)
       \<and> handleMouseMove h event ((fst (handleMouseDown down (this, doc)))\<lparr>interactionDepth := Deep\<rparr>, doc)
         = add_movement h event ((fst (handleMouseDown down (this, doc)))\<lparr>interactionDepth := Deep\<rparr>, doc)
       \<and> (plainly_rendered doc (targetForm this)
            \<and> reads_zero h (layoutBox doc (targetForm this))
            \<and> keeps_exactly h (layoutBox doc (targetForm this))
                 \<lparr>x = x (currentTranslation h (this, doc)) + movementX event,
                  y = y (currentTranslation h (this, doc)) + movementY event\<rparr>
            \<longrightarrow>
            currentTranslation h
              (handleMouseMove h event ((fst (handleMouseDown down (this, doc)))\<lparr>interactionDepth := Deep\<rparr>, doc))
            = \<lparr>x = x (currentTranslation h (this, doc)) + movementX event,
               y = y (currentTranslation h (this, doc)) + movementY event\<rparr>))"
proof -
  let ?shallow = "this\<lparr>lastMouseDown := Some down, mouseIsDown := True, interactionDepth := Shallow\<rparr>"
  let ?deep = "this\<lparr>lastMouseDown := Some down, mouseIsDown := True, interactionDepth := Deep\<rparr>"
  have rec: "lastMouseDown (fst (handleMouseDown down (this, doc))) = Some down
     \<and> mouseIsDown (fst (handleMouseDown down (this, doc)))
     \<and> snd (handleMouseDown down (this, doc)) = doc"
    by simp
  have st: "(fst (handleMouseDown down (this, doc)))\<lparr>interactionDepth := Shallow\<rparr> = ?shallow"
    "(fst (handleMouseDown down (this, doc)))\<lparr>interactionDepth := Deep\<rparr> = ?deep"
    by simp_all
  have same: "currentTranslation h (?deep, doc) = currentTranslation h (this, doc)"
    by (rule currentTranslation_same_form) simp
  have gated: "handleMouseMove h event (?shallow, doc) = (?shallow, doc)
      \<and> handleMouseMove h event (?deep, doc) = add_movement h event (?deep, doc)
      \<and> (plainly_rendered doc (targetForm this)
            \<and> reads_zero h (layoutBox doc (targetForm this))
            \<and> keeps_exactly h (layoutBox doc (targetForm this))
                 \<lparr>x = x (currentTranslation h (this, doc)) + movementX event,
                  y = y (currentTranslation h (this, doc)) + movementY event\<rparr>
            \<longrightarrow>
            currentTranslation h (handleMouseMove h event (?deep, doc))
            = \<lparr>x = x (currentTranslation h (this, doc)) + movementX event,
               y = y (currentTranslation h (this, doc)) + movementY event\<rparr>)"
    if a: "target down = Some (NodeTarget origin) \<and> origin \<noteq> targetForm this
        \<and> inclusive_descendant (parentNode doc) (targetForm this) origin"
  proof (intro conjI impI)
    show "handleMouseMove h event (?shallow, doc) = (?shallow, doc)"
      by (rule handleMouseMove_shallow_other_origin [of ?shallow down]) (use a in simp_all)
    show mv: "handleMouseMove h event (?deep, doc) = add_movement h event (?deep, doc)"
      by (rule handleMouseMove_qualifying [of ?deep down]) (use a in \<open>simp_all add: contains_def\<close>)
    assume b: "plainly_rendered doc (targetForm this)
            \<and> reads_zero h (layoutBox doc (targetForm this))
            \<and> keeps_exactly h (layoutBox doc (targetForm this))
                 \<lparr>x = x (currentTranslation h (this, doc)) + movementX event,
                  y = y (currentTranslation h (this, doc)) + movementY event\<rparr>"
    have "currentTranslation h (add_movement h event (?deep, doc)) =
           \<lparr>x = x (currentTranslation h (?deep, doc)) + movementX event,
            y = y (currentTranslation h (?deep, doc)) + movementY event\<rparr>"
      by (rule currentTranslation_after_movement) (use b same in simp_all)
    then show "currentTranslation h (handleMouseMove h event (?deep, doc))
            = \<lparr>x = x (currentTranslation h (this, doc)) + movementX event,
               y = y (currentTranslation h (this, doc)) + movementY event\<rparr>"
      unfolding mv same .
  qed
  show ?thesis unfolding st using rec gated by blast
qed

theorem press_recorded_unconditionally_witness:
  "target (mouse_event (Some (NodeTarget 5)) 0 0) = Some (NodeTarget 5)
   \<and> 5 \<noteq> targetForm (new_DragTranslater 3)
   \<and> inclusive_descendant (parentNode example_document) (targetForm (new_DragTranslater 3)) 5
   \<and> plainly_rendered example_document (targetForm (new_DragTranslater 3))
   \<and> reads_zero example_host (layoutBox example_document (targetForm (new_DragTranslater 3)))
   \<and> keeps_exactly example_host (layoutBox example_document (targetForm (new_DragTranslater 3)))
        \<lparr>x = x (currentTranslation example_host (new_DragTranslater 3, example_document))
                + movementX (mouse_event None 6 (- 1)),
         y = y (currentTranslation example_host (new_DragTranslater 3, example_document))
                + movementY (mouse_event None 6 (- 1))\<rparr>
   \<and> currentTranslation example_host
        (handleMouseMove example_host (mouse_event None 6 (- 1))
          ((fst (handleMouseDown (mouse_event (Some (NodeTarget 5)) 0 0)
                  (new_DragTranslater 3, example_document)))\<lparr>interactionDepth := Deep\<rparr>,
           example_document)) = \<lparr>x = 16, y = - 5\<rparr>"
proof -
  let ?down = "mouse_event (Some (NodeTarget 5)) 0 0"
  let ?event = "mouse_event None 6 (- 1)"
  have tf: "targetForm (new_DragTranslater 3) = 3" by (simp add: new_DragTranslater_def)
  have a: "target ?down = Some (NodeTarget 5) \<and> 5 \<noteq> targetForm (new_DragTranslater 3)
     \<and> inclusive_descendant (parentNode example_document) (targetForm (new_DragTranslater 3)) 5"
    using example_child_in_form by (simp add: mouse_event_def tf)
  have p: "plainly_rendered example_document (targetForm (new_DragTranslater 3))"
    using example_plainly_rendered by (simp add: tf)
  have r: "reads_zero example_host (layoutBox example_document (targetForm (new_DragTranslater 3)))"
    using example_reads_zero by (simp add: tf)
  have k: "keeps_exactly example_host (layoutBox example_document (targetForm (new_DragTranslater 3)))
        \<lparr>x = x (currentTranslation example_host (new_DragTranslater 3, example_document)) + movementX ?event,
         y = y (currentTranslation example_host (new_DragTranslater 3, example_document)) + movementY ?event\<rparr>"
    by code_simp
  have cur: "currentTranslation example_host (new_DragTranslater 3, example_document) = \<lparr>x = 10, y = - 4\<rparr>"
    by (rule example_currentTranslation [OF tf])
  have m: "movementX ?event = 6" "movementY ?event = - 1" by (simp_all add: mouse_event_def)
  have "currentTranslation example_host
        (handleMouseMove example_host ?event
          ((fst (handleMouseDown ?down (new_DragTranslater 3, example_document)))\<lparr>interactionDepth := Deep\<rparr>,
           example_document)) =
        \<lparr>x = x (currentTranslation example_host (new_DragTranslater 3, example_document)) + movementX ?event,
         y = y (currentTranslation example_host (new_DragTranslater 3, example_document)) + movementY ?event\<rparr>"
    using press_recorded_unconditionally
      [of ?down "new_DragTranslater 3" example_document 5 example_host ?event] a p r k
    by blast
  then have res: "currentTranslation example_host
        (handleMouseMove example_host ?event
          ((fst (handleMouseDown ?down (new_DragTranslater 3, example_document)))\<lparr>interactionDepth := Deep\<rparr>,
           example_document)) = \<lparr>x = 16, y = - 5\<rparr>"
    unfolding cur m by simp
  show ?thesis using a p r k res by blast
qed

text \<open>
  C10: with \<open>interactionDepth\<close> shallow, \<open>handleMouseMove\<close> of the second version leaves
  the same document as \<open>handleMouseMove\<close> of the first version run on the same fields,
  and neither changes its object.
\<close>

theorem versions_agree_when_shallow:
  assumes "interactionDepth this = Shallow"
  shows "snd (handleMouseMove h event (this, doc)) =
           snd (handleMouseMove_v1 h event (DragTranslater_v1.truncate this, doc))
         \<and> fst (handleMouseMove h event (this, doc)) = this
         \<and> fst (handleMouseMove_v1 h event (DragTranslater_v1.truncate this, doc)) =
             DragTranslater_v1.truncate this"
proof -
  have tr: "targetForm (DragTranslater_v1.truncate this) = targetForm this"
    "lastMouseDown (DragTranslater_v1.truncate this) = lastMouseDown this"
    "mouseIsDown (DragTranslater_v1.truncate this) = mouseIsDown this"
    by (simp_all add: DragTranslater_v1.truncate_def)
  have add: "snd (add_movement h event (DragTranslater_v1.truncate this, doc)) =
             snd (add_movement h event (this, doc))"
    by (simp add: add_movement_def Let_def tr)
  have obj: "fst (add_movement h event (DragTranslater_v1.truncate this, doc)) = DragTranslater_v1.truncate this"
    "fst (add_movement h event (this, doc)) = this"
    by (rule add_movement_object)+
  show ?thesis
    using assms add obj
    by (auto simp: tr instanceof_Node_def split: option.splits event_target.splits)
qed

theorem versions_agree_when_shallow_witness:
  "interactionDepth (fst (handleMouseDown (mouse_event (Some (NodeTarget 3)) 0 0)
                           (new_DragTranslater 3, example_document))) = Shallow
   \<and> snd (handleMouseMove example_host (mouse_event None 6 (- 1))
            (fst (handleMouseDown (mouse_event (Some (NodeTarget 3)) 0 0)
                   (new_DragTranslater 3, example_document)), example_document)) =
       snd (handleMouseMove_v1 example_host (mouse_event None 6 (- 1))
            (DragTranslater_v1.truncate
               (fst (handleMouseDown (mouse_event (Some (NodeTarget 3)) 0 0)
                      (new_DragTranslater 3, example_document))), example_document))"
proof -
  let ?this = "fst (handleMouseDown (mouse_event (Some (NodeTarget 3)) 0 0)
                           (new_DragTranslater 3, example_document))"
  have sh: "interactionDepth ?this = Shallow" by (simp add: new_DragTranslater_def)
  show ?thesis
    using sh versions_agree_when_shallow [OF sh, of example_host "mouse_event None 6 (- 1)" example_document]
    by blast
qed

section \<open>Properties of FormFronter, and of all handlers\<close>

lemma lastChild_snoc: "childNodes doc p = xs @ [n] \<Longrightarrow> lastChild doc p = Some n"
  by (simp add: lastChild_def)

lemma bringToFront_already_last:
  assumes "parentNode doc (FormFronter.targetForm this) = Some p"
    and "lastChild doc p = Some (FormFronter.targetForm this)"
  shows "bringToFront this doc = Inr doc"
  using assms by (simp add: bringToFront_def)

text \<open>
  C3: for a target form with a parent (with two children or more, in a document that
  is a tree), \<open>bringToFront\<close> returns without exception a document where the form is
  the last child of that parent, and \<open>bringToFront\<close> on that document returns it
  unchanged.
\<close>

theorem bringToFront_makes_last_child:
  assumes "tree_shaped depth doc"
    and "parentNode doc (FormFronter.targetForm this) = Some p"
    and "2 \<le> length (childNodes doc p)"
  shows "\<not> isl (bringToFront this doc)
       \<and> parentNode (projr (bringToFront this doc)) (FormFronter.targetForm this) = Some p
       \<and> lastChild (projr (bringToFront this doc)) p = Some (FormFronter.targetForm this)
       \<and> bringToFront this (projr (bringToFront this doc)) = bringToFront this doc"
proof (cases "lastChild doc p = Some (FormFronter.targetForm this)")
  case True
  have "bringToFront this doc = Inr doc"
    by (rule bringToFront_already_last [OF assms(2) True])
  then show ?thesis using assms(2) True by simp
next
  case False
  let ?e = "FormFronter.targetForm this"
  let ?doc' = "doc\<lparr>parentNode := (parentNode doc)(?e := Some p),
                    childNodes := (childNodes doc)(p := removeAll ?e (childNodes doc p) @ [?e])\<rparr>"
  have b: "bringToFront this doc = Inr ?doc'"
    using False assms(2) appendChild_own_parent [OF assms(1,2)] by (simp add: bringToFront_def)
  have pn: "parentNode ?doc' ?e = Some p" by simp
  have lc: "lastChild ?doc' p = Some ?e"
    by (rule lastChild_snoc [of _ _ "removeAll ?e (childNodes doc p)"]) simp
  have again: "bringToFront this ?doc' = Inr ?doc'"
    by (rule bringToFront_already_last [OF pn lc])
  show ?thesis unfolding b using pn lc again by simp
qed

lemma example_tree_shaped: "tree_shaped example_depth example_document"
  by (simp add: tree_shaped_def example_document_def example_depth_def)

theorem bringToFront_makes_last_child_witness:
  "tree_shaped example_depth example_document
   \<and> parentNode example_document (FormFronter.targetForm \<lparr>FormFronter.targetForm = 3\<rparr>) = Some 2
   \<and> 2 \<le> length (childNodes example_document 2)
   \<and> childNodes example_document 2 = [3, 4]
   \<and> childNodes (projr (bringToFront \<lparr>FormFronter.targetForm = 3\<rparr> example_document)) 2 = [4, 3]
   \<and> lastChild (projr (bringToFront \<lparr>FormFronter.targetForm = 3\<rparr> example_document)) 2 = Some 3"
proof -
  let ?f = "\<lparr>FormFronter.targetForm = 3\<rparr>"
  have p: "parentNode example_document (FormFronter.targetForm ?f) = Some 2"
    by (simp add: example_document_def)
  have l: "2 \<le> length (childNodes example_document 2)"
    by (simp add: example_document_def)
  have c: "childNodes example_document 2 = [3, 4]"
    by (simp add: example_document_def)
  have r: "childNodes (projr (bringToFront ?f example_document)) 2 = [4, 3]"
    using appendChild_own_parent [OF example_tree_shaped p]
    by (simp add: bringToFront_def lastChild_def example_document_def)
  show ?thesis
    using example_tree_shaped p l c r bringToFront_makes_last_child [OF example_tree_shaped p l]
    by simp
qed

lemma classList_add_valid:
  "token \<noteq> [] \<Longrightarrow> \<not> list_ex ascii_whitespace token \<Longrightarrow> \<not> isl (classList_add n token doc)"
  by (simp add: classList_add_def)

lemma classList_remove_valid:
  "token \<noteq> [] \<Longrightarrow> \<not> list_ex ascii_whitespace token \<Longrightarrow> \<not> isl (classList_remove n token doc)"
  by (simp add: classList_remove_def)

text \<open>
  C4: no handler throws, and the defensive branches change nothing. \<open>bringToFront\<close> on
  a form without parent returns the document as it was, and on any tree it returns
  without exception. \<open>handleMouseMove\<close>, in both versions, returns the object and the
  document as they were when no press was recorded and when the recorded press has a
  target that is not a node. The hover listeners return without exception for a class
  name that is a valid token. The other handlers have no failing step.
\<close>

theorem handlers_never_throw:
  "(parentNode doc (FormFronter.targetForm fronter) = None \<longrightarrow> bringToFront fronter doc = Inr doc)
   \<and> (tree_shaped depth doc \<longrightarrow> \<not> isl (bringToFront fronter doc))
   \<and> (lastMouseDown this = None \<longrightarrow> handleMouseMove h event (this, doc) = (this, doc))
   \<and> (lastMouseDown old = None \<longrightarrow> handleMouseMove_v1 h event (old, doc) = (old, doc))
   \<and> (lastMouseDown this = Some down \<and> \<not> instanceof_Node (target down) \<longrightarrow>
        handleMouseMove h event (this, doc) = (this, doc))
   \<and> (lastMouseDown old = Some down \<and> \<not> instanceof_Node (target down) \<longrightarrow>
        handleMouseMove_v1 h event (old, doc) = (old, doc))
   \<and> (grab_cursor \<noteq> [] \<and> \<not> list_ex ascii_whitespace grab_cursor \<longrightarrow>
        \<not> isl (handleMouseOver grab_cursor event (this, doc))
        \<and> \<not> isl (handleMouseOut grab_cursor event (this, doc)))"
proof (intro conjI impI)
  show "bringToFront fronter doc = Inr doc"
    if "parentNode doc (FormFronter.targetForm fronter) = None"
    using that by (simp add: bringToFront_def)
  show "\<not> isl (bringToFront fronter doc)" if t: "tree_shaped depth doc"
  proof (cases "parentNode doc (FormFronter.targetForm fronter)")
    case None
    then show ?thesis by (simp add: bringToFront_def)
  next
    case (Some p)
    show ?thesis
      using Some appendChild_own_parent [OF t Some] by (simp add: bringToFront_def)
  qed
  show "handleMouseMove h event (this, doc) = (this, doc)" if "lastMouseDown this = None"
    using that by simp
  show "handleMouseMove_v1 h event (old, doc) = (old, doc)" if "lastMouseDown old = None"
    using that by simp
  show "handleMouseMove h event (this, doc) = (this, doc)"
    if "lastMouseDown this = Some down \<and> \<not> instanceof_Node (target down)"
    using that by simp
  show "handleMouseMove_v1 h event (old, doc) = (old, doc)"
    if "lastMouseDown old = Some down \<and> \<not> instanceof_Node (target down)"
    using that by (auto simp: instanceof_Node_def)
  show "\<not> isl (handleMouseOver grab_cursor event (this, doc))"
    if "grab_cursor \<noteq> [] \<and> \<not> list_ex ascii_whitespace grab_cursor"
    using that classList_add_valid [of grab_cursor "targetForm this" doc]
    by (auto split: sum.splits)
  show "\<not> isl (handleMouseOut grab_cursor event (this, doc))"
    if "grab_cursor \<noteq> [] \<and> \<not> list_ex ascii_whitespace grab_cursor"
    using that classList_remove_valid [of grab_cursor "targetForm this" doc]
    by (auto split: sum.splits)
qed

theorem handlers_never_throw_witness:
  "parentNode example_document (FormFronter.targetForm \<lparr>FormFronter.targetForm = 2\<rparr>) = None
   \<and> tree_shaped example_depth example_document
   \<and> lastMouseDown (new_DragTranslater 3) = None
   \<and> lastMouseDown (new_DragTranslater_v1 3) = None
   \<and> lastMouseDown ((new_DragTranslater 3)\<lparr>lastMouseDown := Some (mouse_event (Some WindowTarget) 0 0),
                                              mouseIsDown := True\<rparr>)
        = Some (mouse_event (Some WindowTarget) 0 0)
   \<and> lastMouseDown ((new_DragTranslater_v1 3)\<lparr>lastMouseDown := Some (mouse_event (Some WindowTarget) 0 0),
                                                 mouseIsDown := True\<rparr>)
        = Some (mouse_event (Some WindowTarget) 0 0)
   \<and> \<not> instanceof_Node (target (mouse_event (Some WindowTarget) 0 0))
   \<and> ''grab-cursor'' \<noteq> [] \<and> \<not> list_ex ascii_whitespace ''grab-cursor''
   \<and> bringToFront \<lparr>FormFronter.targetForm = 2\<rparr> example_document = Inr example_document
   \<and> handleMouseMove example_host (mouse_event None 6 (- 1))
        ((new_DragTranslater 3)\<lparr>lastMouseDown := Some (mouse_event (Some WindowTarget) 0 0),
                                  mouseIsDown := True\<rparr>, example_document)
       = ((new_DragTranslater 3)\<lparr>lastMouseDown := Some (mouse_event (Some WindowTarget) 0 0),
                                   mouseIsDown := True\<rparr>, example_document)
   \<and> handleMouseMove_v1 example_host (mouse_event None 6 (- 1))
        ((new_DragTranslater_v1 3)\<lparr>lastMouseDown := Some (mouse_event (Some WindowTarget) 0 0),
                                     mouseIsDown := True\<rparr>, example_document)
       = ((new_DragTranslater_v1 3)\<lparr>lastMouseDown := Some (mouse_event (Some WindowTarget) 0 0),
                                      mouseIsDown := True\<rparr>, example_document)
   \<and> \<not> isl (handleMouseOver ''grab-cursor'' (mouse_event (Some (NodeTarget 3)) 0 0)
               (new_DragTranslater 3, example_document))
   \<and> \<not> isl (handleMouseOut ''grab-cursor'' (mouse_event (Some (NodeTarget 3)) 0 0)
               (new_DragTranslater 3, example_document))"
proof -
  let ?fronter = "\<lparr>FormFronter.targetForm = 2\<rparr>"
  let ?down = "mouse_event (Some WindowTarget) 0 0"
  let ?move = "mouse_event None 6 (- 1)"
  let ?over = "mouse_event (Some (NodeTarget 3)) 0 0"
  let ?pressed = "(new_DragTranslater 3)\<lparr>lastMouseDown := Some ?down, mouseIsDown := True\<rparr>"
  let ?pressed1 = "(new_DragTranslater_v1 3)\<lparr>lastMouseDown := Some ?down, mouseIsDown := True\<rparr>"
  have h1: "parentNode example_document (FormFronter.targetForm ?fronter) = None"
    by (simp add: example_document_def)
  have h2: "lastMouseDown (new_DragTranslater 3) = None" "lastMouseDown (new_DragTranslater_v1 3) = None"
    by (simp_all add: new_DragTranslater_def new_DragTranslater_v1_def)
  have h3: "lastMouseDown ?pressed = Some ?down" "lastMouseDown ?pressed1 = Some ?down" by simp_all
  have h4: "\<not> instanceof_Node (target ?down)" by (simp add: instanceof_Node_def mouse_event_def)
  have h5: "''grab-cursor'' \<noteq> [] \<and> \<not> list_ex ascii_whitespace ''grab-cursor''"
    by (simp add: ascii_whitespace_def)
  note a = handlers_never_throw [of example_document ?fronter example_depth "new_DragTranslater 3"
      example_host ?over "new_DragTranslater_v1 3" ?down "''grab-cursor''"]
  note b = handlers_never_throw [of example_document ?fronter example_depth ?pressed
      example_host ?move ?pressed1 ?down "''grab-cursor''"]
  have c1: "bringToFront ?fronter example_document = Inr example_document"
    using a h1 by blast
  have c2: "handleMouseMove example_host ?move (?pressed, example_document) = (?pressed, example_document)"
    using b h3 h4 by blast
  have c3: "handleMouseMove_v1 example_host ?move (?pressed1, example_document) = (?pressed1, example_document)"
    using b h3 h4 by blast
  have c4: "\<not> isl (handleMouseOver ''grab-cursor'' ?over (new_DragTranslater 3, example_document))"
    "\<not> isl (handleMouseOut ''grab-cursor'' ?over (new_DragTranslater 3, example_document))"
    using a h5 by blast+
  show ?thesis
    using h1 example_tree_shaped h2 h3 h4 h5 c1 c2 c3 c4 by blast
qed

end
